theory Spec2Isabelle
  imports Main "HOL-Library.Word"
begin

unbundle bit_operations_syntax

section \<open>The DNS configuration client (dnsinfo\_copy.c)\<close>

text \<open>
  The client side of the DNS configuration service keeps two process-wide variables,
  \<^verbatim>\<open>dnsinfo_active\<close> (the count of logical opens) and \<^verbatim>\<open>dnsinfo_client\<close> (the shared
  connection), and offers three operations: \<^verbatim>\<open>dns_configuration_copy\<close>,
  \<^verbatim>\<open>dns_configuration_free\<close> and \<^verbatim>\<open>_dns_configuration_ack\<close>.  The model threads the
  two variables through every operation as an explicit state and records the calls made
  to the collaborators (connection create and release, messages, \<^verbatim>\<open>malloc\<close>,
  \<^verbatim>\<open>free\<close>) in a trace.

  Everything the file only calls, and every constant and type it only names, is a
  parameter: the sizes and offsets of \<^verbatim>\<open>_dns_config_buf_t\<close> and the constant
  \<^verbatim>\<open>DNS_CONFIG_BUF_MAX\<close> form a layout, and the answers of
  \<^verbatim>\<open>libSC_info_available\<close>, \<^verbatim>\<open>getprogname\<close>, \<^verbatim>\<open>libSC_info_client_create\<close>,
  \<^verbatim>\<open>libSC_send_message_with_reply_sync\<close>, \<^verbatim>\<open>malloc\<close> (the contents of fresh memory)
  and \<^verbatim>\<open>_dns_configuration_expand_config\<close> form the environment of one call.

  Conventions of the model: \<^verbatim>\<open>assert\<close> is compiled in, so a failed assertion ends the
  process (\<open>Crash\<close>); \<^verbatim>\<open>malloc\<close> succeeds and returns a block of exactly the size
  asked for, which \<^verbatim>\<open>bcopy\<close> and \<^verbatim>\<open>bzero\<close> change in place; a read or write
  outside a block is undefined in C and is the outcome \<open>Overrun\<close>; \<^verbatim>\<open>size_t\<close> is 64 bits wide and its
  arithmetic wraps; \<^verbatim>\<open>dnsinfo_active\<close> is a C \<^verbatim>\<open>int\<close>, modelled by an unbounded
  integer (signed overflow is undefined in C, and a count of live snapshots does not
  come near it); the body of each \<^verbatim>\<open>dispatch_sync\<close> block runs atomically.
\<close>

subsection \<open>Data\<close>

type_synonym byte = "8 word"

text \<open>The layout of \<^verbatim>\<open>_dns_config_buf_t\<close> and the size limit, declared in headers.\<close>

record dnsinfo_layout =
  sizeof_dns_config_buf :: nat
  offsetof_n_attribute :: nat
  offsetof_n_padding :: nat
  DNS_CONFIG_BUF_MAX :: nat

text \<open>
  A layout is meaningful when both 32-bit fields lie inside the header and the size
  limit leaves room for a 32-bit addend in a \<^verbatim>\<open>size_t\<close>.
\<close>

definition layout_ok :: "dnsinfo_layout \<Rightarrow> bool" where
  "layout_ok L \<longleftrightarrow>
     offsetof_n_attribute L + 4 \<le> sizeof_dns_config_buf L \<and>
     offsetof_n_padding L + 4 \<le> sizeof_dns_config_buf L \<and>
     DNS_CONFIG_BUF_MAX L + 2 ^ 32 \<le> 2 ^ 64"

record libSC_info_client =
  active :: bool
  connection :: nat

text \<open>
  The expanded configuration.  The client code reads only its generation; the buffer
  it lives in is kept so that the bytes handed to the expansion stay visible.
\<close>

record dns_config =
  generation :: "64 word"
  storage :: "byte list"

datatype dnsinfo_request = DNSINFO_REQUEST_COPY | DNSINFO_REQUEST_ACKNOWLEDGE

datatype dnsinfo_key =
  DNSINFO_CONFIGURATION | DNSINFO_GENERATION | DNSINFO_PROC_NAME | DNSINFO_REQUEST

datatype xpc_value =
  XPC_string string
| XPC_int64 dnsinfo_request
| XPC_uint64 "64 word"
| XPC_data "byte list"

type_synonym xpc_dictionary = "dnsinfo_key \<rightharpoonup> xpc_value"

datatype event =
  Client_create
| Client_release "libSC_info_client option"
| Send_message_with_reply_sync xpc_dictionary
| Connection_send_message nat xpc_dictionary
| Malloc nat
| Free

record dnsinfo_state =
  dnsinfo_active :: int
  dnsinfo_client :: "libSC_info_client option"
  once_done :: bool
  proc_name :: "string option"
  trace :: "event list"

record copy_env =
  libSC_info_available :: bool
  getprogname :: "string option"
  libSC_info_client_create :: "libSC_info_client option"
  libSC_send_message_with_reply_sync :: "xpc_dictionary \<Rightarrow> xpc_dictionary option"
  malloc_contents :: "nat \<Rightarrow> byte"
  dns_configuration_expand_config :: "byte list \<Rightarrow> dns_config option"

datatype 'a outcome = Crash | Overrun | Returned 'a

subsection \<open>Helpers of the C runtime\<close>

definition size_t_add :: "nat \<Rightarrow> nat \<Rightarrow> nat" where
  "size_t_add a b = (a + b) mod 2 ^ 64"

definition size_t_sub :: "nat \<Rightarrow> nat \<Rightarrow> nat" where
  "size_t_sub a b = (if b \<le> a then a - b else (2 ^ 64 + a - b) mod 2 ^ 64)"

text \<open>
  A 32-bit field is loaded from four consecutive bytes and passed through
  \<^verbatim>\<open>ntohl\<close>: whatever the byte order of the host, the result is the big-endian
  reading of the four bytes.
\<close>

definition ntohl_at :: "byte list \<Rightarrow> nat \<Rightarrow> 32 word" where
  "ntohl_at bs off =
     push_bit 24 (ucast (bs ! off)) OR push_bit 16 (ucast (bs ! (off + 1))) OR
     push_bit 8 (ucast (bs ! (off + 2))) OR ucast (bs ! (off + 3))"

definition n_attribute :: "dnsinfo_layout \<Rightarrow> byte list \<Rightarrow> 32 word" where
  "n_attribute L bs = ntohl_at bs (offsetof_n_attribute L)"

definition n_padding :: "dnsinfo_layout \<Rightarrow> byte list \<Rightarrow> 32 word" where
  "n_padding L bs = ntohl_at bs (offsetof_n_padding L)"

definition malloc :: "copy_env \<Rightarrow> nat \<Rightarrow> byte list" where
  "malloc E n = map (malloc_contents E) [0..<n]"

text \<open>
  \<^verbatim>\<open>bcopy(src, dst, n)\<close> overwrites the first \<open>n\<close> bytes of the block \<open>dst\<close> and
  \<^verbatim>\<open>bzero(&buf[off], n)\<close> overwrites \<open>n\<close> bytes of the block \<open>buf\<close> from offset
  \<open>off\<close>.  Neither changes the size of the block it writes to; where the bytes
  touched do not lie inside the blocks there is no result.
\<close>

definition bcopy :: "byte list \<Rightarrow> byte list \<Rightarrow> nat \<Rightarrow> byte list option" where
  "bcopy src dst n =
     (if n \<le> length src \<and> n \<le> length dst then Some (take n src @ drop n dst) else None)"

definition bzero :: "byte list \<Rightarrow> nat \<Rightarrow> nat \<Rightarrow> byte list option" where
  "bzero buf off n =
     (if off + n \<le> length buf
      then Some (take off buf @ replicate n 0 @ drop (off + n) buf)
      else None)"

definition xpc_dictionary_get_data :: "xpc_dictionary \<Rightarrow> dnsinfo_key \<Rightarrow> byte list option" where
  "xpc_dictionary_get_data d k = (case d k of Some (XPC_data bs) \<Rightarrow> Some bs | _ \<Rightarrow> None)"

definition log_event :: "event \<Rightarrow> dnsinfo_state \<Rightarrow> dnsinfo_state" where
  "log_event e s = s\<lparr>trace := trace s @ [e]\<rparr>"

subsection \<open>dns\_configuration\_copy\<close>

text \<open>
  The block run on the queue (lines 109 to 137): count the open, and create the client
  when this is the first open or no client exists; a failed creation takes the count
  back.
\<close>

definition copy_sync_block :: "copy_env \<Rightarrow> dnsinfo_state \<Rightarrow> dnsinfo_state" where
  "copy_sync_block E s =
     (let s1 = s\<lparr>dnsinfo_active := dnsinfo_active s + 1\<rparr> in
      if dnsinfo_active s = 0 \<or> dnsinfo_client s1 = None then
        let s2 = (if once_done s1 then s1
                  else s1\<lparr>once_done := True, proc_name := getprogname E\<rparr>);
            s3 = log_event Client_create (s2\<lparr>dnsinfo_client := libSC_info_client_create E\<rparr>)
        in if dnsinfo_client s3 = None
           then s3\<lparr>dnsinfo_active := dnsinfo_active s3 - 1\<rparr>
           else s3
      else s1)"

text \<open>
  The treatment of the reply (lines 162 to 210): the result is the buffer to expand,
  no buffer, or the end of the process at a failed assertion.  The block is allocated
  with \<open>bufLen\<close> bytes, and the allocation is recorded with that size.
\<close>

definition copy_reply_buf ::
  "dnsinfo_layout \<Rightarrow> copy_env \<Rightarrow> xpc_dictionary option \<Rightarrow> dnsinfo_state \<Rightarrow>
     (byte list option \<times> dnsinfo_state) outcome" where
  "copy_reply_buf L E reply s =
     (case reply of
        None \<Rightarrow> Returned (None, s)
      | Some r \<Rightarrow>
          (case xpc_dictionary_get_data r DNSINFO_CONFIGURATION of
             None \<Rightarrow> Returned (None, s)
           | Some dataRef \<Rightarrow>
               (let dataLen = length dataRef in
                if dataLen \<ge> sizeof_dns_config_buf L \<and> dataLen \<le> DNS_CONFIG_BUF_MAX L then
                  (let n_attr = unat (n_attribute L dataRef);
                       n_pad = unat (n_padding L dataRef);
                       configLen = size_t_add (sizeof_dns_config_buf L) n_attr
                   in if configLen \<noteq> dataLen then Crash
                      else if \<not> n_pad \<le> size_t_sub (DNS_CONFIG_BUF_MAX L) dataLen then Crash
                      else
                        (let bufLen = size_t_add dataLen n_pad
                         in if \<not> bufLen \<le> DNS_CONFIG_BUF_MAX L then Crash
                            else
                              (let buf = malloc E bufLen;
                                   s1 = log_event (Malloc bufLen) s
                               in case bcopy dataRef buf dataLen of
                                    None \<Rightarrow> Overrun
                                  | Some buf \<Rightarrow>
                                      (case bzero buf dataLen n_pad of
                                         None \<Rightarrow> Overrun
                                       | Some buf \<Rightarrow> Returned (Some buf, s1)))))
                else Returned (None, s))))"

definition copy_reqdict :: "dnsinfo_state \<Rightarrow> xpc_dictionary" where
  "copy_reqdict s =
     (let reqdict = Map.empty;
          reqdict = (case proc_name s of
                       Some p \<Rightarrow> reqdict(DNSINFO_PROC_NAME \<mapsto> XPC_string p)
                     | None \<Rightarrow> reqdict)
      in reqdict(DNSINFO_REQUEST \<mapsto> XPC_int64 DNSINFO_REQUEST_COPY))"

definition dns_configuration_copy ::
  "dnsinfo_layout \<Rightarrow> copy_env \<Rightarrow> dnsinfo_state \<Rightarrow> (dns_config option \<times> dnsinfo_state) outcome" where
  "dns_configuration_copy L E s =
     (if \<not> libSC_info_available E then Returned (None, s)
      else
        (let s1 = copy_sync_block E s in
         case dnsinfo_client s1 of
           None \<Rightarrow> Returned (None, s1)
         | Some c \<Rightarrow>
             if \<not> active c then Returned (None, s1)
             else
               (let reqdict = copy_reqdict s1;
                    s2 = log_event (Send_message_with_reply_sync reqdict) s1;
                    reply = libSC_send_message_with_reply_sync E reqdict
                in case copy_reply_buf L E reply s2 of
                     Crash \<Rightarrow> Crash
                   | Overrun \<Rightarrow> Overrun
                   | Returned (None, s3) \<Rightarrow> Returned (None, s3)
                   | Returned (Some buf, s3) \<Rightarrow>
                       (case dns_configuration_expand_config E buf of
                          None \<Rightarrow> Returned (None, log_event Free s3)
                        | Some config \<Rightarrow> Returned (Some config, s3)))))"

subsection \<open>dns\_configuration\_free and \_dns\_configuration\_ack\<close>

definition dns_configuration_free :: "dns_config option \<Rightarrow> dnsinfo_state \<Rightarrow> dnsinfo_state" where
  "dns_configuration_free config s =
     (case config of
        None \<Rightarrow> s
      | Some c \<Rightarrow>
          (let s1 = s\<lparr>dnsinfo_active := dnsinfo_active s - 1\<rparr>;
               s2 = (if dnsinfo_active s1 = 0
                     then (log_event (Client_release (dnsinfo_client s1)) s1)\<lparr>dnsinfo_client := None\<rparr>
                     else s1)
           in log_event Free s2))"

definition ack_reqdict :: "dns_config \<Rightarrow> xpc_dictionary" where
  "ack_reqdict c =
     (let reqdict = Map.empty;
          reqdict = reqdict(DNSINFO_REQUEST \<mapsto> XPC_int64 DNSINFO_REQUEST_ACKNOWLEDGE)
      in reqdict(DNSINFO_GENERATION \<mapsto> XPC_uint64 (generation c)))"

definition dns_configuration_ack ::
  "dns_config option \<Rightarrow> string \<Rightarrow> dnsinfo_state \<Rightarrow> dnsinfo_state" where
  "dns_configuration_ack config bundle_id s =
     (case config of
        None \<Rightarrow> s
      | Some c \<Rightarrow>
          (case dnsinfo_client s of
             None \<Rightarrow> s
           | Some cl \<Rightarrow>
               if \<not> active cl then s
               else
                 (let s1 = s\<lparr>dnsinfo_active := dnsinfo_active s + 1\<rparr>
                  in log_event (Connection_send_message (connection cl) (ack_reqdict c)) s1)))"

subsection \<open>Observations on the trace\<close>

fun releases :: "event list \<Rightarrow> nat" where
  "releases [] = 0"
| "releases (Client_release c # es) = Suc (releases es)"
| "releases (e # es) = releases es"

fun live_allocations :: "event list \<Rightarrow> int" where
  "live_allocations [] = 0"
| "live_allocations (Malloc n # es) = live_allocations es + 1"
| "live_allocations (Free # es) = live_allocations es - 1"
| "live_allocations (e # es) = live_allocations es"


definition handle_established :: "copy_env \<Rightarrow> dnsinfo_state \<Rightarrow> bool" where
  "handle_established E s =
     (case (if dnsinfo_active s = 0 \<or> dnsinfo_client s = None
            then libSC_info_client_create E else dnsinfo_client s) of
        None \<Rightarrow> False
      | Some c \<Rightarrow> active c)"

text \<open>
  The reply to the request of a call, the configuration data found in it, and the state
  once the request has been sent.
\<close>

definition reply_of :: "copy_env \<Rightarrow> dnsinfo_state \<Rightarrow> xpc_dictionary option" where
  "reply_of E s = libSC_send_message_with_reply_sync E (copy_reqdict (copy_sync_block E s))"

definition received :: "copy_env \<Rightarrow> dnsinfo_state \<Rightarrow> byte list option" where
  "received E s =
     (case reply_of E s of
        None \<Rightarrow> None
      | Some r \<Rightarrow> xpc_dictionary_get_data r DNSINFO_CONFIGURATION)"

definition after_request :: "copy_env \<Rightarrow> dnsinfo_state \<Rightarrow> dnsinfo_state" where
  "after_request E s =
     log_event (Send_message_with_reply_sync (copy_reqdict (copy_sync_block E s)))
       (copy_sync_block E s)"

subsection \<open>Sequences of calls\<close>



section \<open>The rank comparison of interface states (network\_information.h)\<close>

text \<open>
  Modelled from the spec: \<^verbatim>\<open>nwi_ifstate_compare_rank\<close> is declared in
  network\_information.h and its body, like \<^verbatim>\<open>struct _nwi_ifstate\<close>, is not among the
  sources.  The specification gives each record an interface name, a flag set and a
  rank (its position, lower first), and makes the comparison a function of the stored
  rank alone; the header fixes the three results as 0, -1 and 1.
\<close>

record nwi_ifstate =
  ifname :: string
  flags :: "64 word"
  rank :: nat

definition EQUAL :: int where "EQUAL = 0"
definition A_FIRST :: int where "A_FIRST = - 1"
definition B_FIRST :: int where "B_FIRST = 1"

definition nwi_ifstate_compare_rank :: "nwi_ifstate \<Rightarrow> nwi_ifstate \<Rightarrow> int" where
  "nwi_ifstate_compare_rank ifstate1 ifstate2 =
     (if rank ifstate1 = rank ifstate2 then EQUAL
      else if rank ifstate1 < rank ifstate2 then A_FIRST
      else B_FIRST)"

section \<open>Sample inputs\<close>

text \<open>
  A layout with a 52-byte header whose last two words are the attribute and padding
  lengths, and a limit of one megabyte; a reply whose data is given; a connection that
  opens.
\<close>

definition sample_layout :: dnsinfo_layout where
  "sample_layout =
     \<lparr>sizeof_dns_config_buf = 52, offsetof_n_attribute = 44, offsetof_n_padding = 48,
      DNS_CONFIG_BUF_MAX = 1048576\<rparr>"

definition sample_client :: libSC_info_client where
  "sample_client = \<lparr>active = True, connection = 1\<rparr>"

definition closed_state :: dnsinfo_state where
  "closed_state =
     \<lparr>dnsinfo_active = 0, dnsinfo_client = None, once_done = False, proc_name = None,
      trace = []\<rparr>"

definition sample_config :: "byte list \<Rightarrow> dns_config" where
  "sample_config buf = \<lparr>generation = 7, storage = buf\<rparr>"

definition sample_env :: "libSC_info_client option \<Rightarrow> byte list option \<Rightarrow> bool \<Rightarrow> copy_env" where
  "sample_env cl d expands =
     \<lparr>libSC_info_available = True,
      getprogname = Some ''scutil'',
      libSC_info_client_create = cl,
      libSC_send_message_with_reply_sync =
        (\<lambda>req. case d of None \<Rightarrow> None
                | Some bs \<Rightarrow> Some [DNSINFO_CONFIGURATION \<mapsto> XPC_data bs]),
      malloc_contents = (\<lambda>i. 170),
      dns_configuration_expand_config =
        (\<lambda>buf. if expands then Some (sample_config buf) else None)\<rparr>"

text \<open>A well-formed buffer: four attribute bytes and eight bytes of padding declared.\<close>

definition sample_data :: "byte list" where
  "sample_data = replicate 44 0 @ [0, 0, 0, 4] @ [0, 0, 0, 8] @ [1, 2, 3, 4]"

text \<open>A buffer that declares forty attribute bytes and carries four.\<close>

definition short_data :: "byte list" where
  "short_data = replicate 44 0 @ [0, 0, 0, 40] @ [0, 0, 0, 0] @ [1, 2, 3, 4]"


text \<open>A buffer shorter than the header.\<close>

definition tiny_data :: "byte list" where
  "tiny_data = [1, 2, 3]"

text \<open>Two interface states, the first ranked ahead of the second.\<close>

definition en0 :: nwi_ifstate where
  "en0 = \<lparr>ifname = ''en0'', flags = 5, rank = 0\<rparr>"

definition en1 :: nwi_ifstate where
  "en1 = \<lparr>ifname = ''en1'', flags = 1, rank = 1\<rparr>"

text \<open>The environment between fork and exec, and a state with one open.\<close>

definition forked_env :: copy_env where
  "forked_env = (sample_env (Some sample_client) (Some sample_data) True)\<lparr>libSC_info_available := False\<rparr>"

definition open_state :: dnsinfo_state where
  "open_state =
     \<lparr>dnsinfo_active = 1, dnsinfo_client = Some sample_client, once_done = True,
      proc_name = Some ''scutil'', trace = [Client_create]\<rparr>"

text \<open>A client whose connection is not active, and a state that still holds it.\<close>

definition inactive_client :: libSC_info_client where
  "inactive_client = \<lparr>active = False, connection = 1\<rparr>"

definition stale_state :: dnsinfo_state where
  "stale_state =
     \<lparr>dnsinfo_active = 1, dnsinfo_client = Some inactive_client, once_done = True,
      proc_name = Some ''scutil'', trace = [Client_create]\<rparr>"



section \<open>Auxiliary facts\<close>

subsection \<open>Arithmetic and traces\<close>

lemma unat_u32_bound: "unat (w :: 32 word) < 2 ^ 32"
  using unsigned_less [of w] by simp

lemma size_t_add_exact: "a + b < 2 ^ 64 \<Longrightarrow> size_t_add a b = a + b"
  by (simp add: size_t_add_def)

lemma size_t_sub_exact: "b \<le> a \<Longrightarrow> size_t_sub a b = a - b"
  by (simp add: size_t_sub_def)

lemma releases_append: "releases (es @ fs) = releases es + releases fs"
  by (induction es rule: releases.induct) simp_all

lemma live_allocations_append:
  "live_allocations (es @ fs) = live_allocations es + live_allocations fs"
  by (induction es rule: live_allocations.induct) simp_all

lemma sync_block_count:
  "handle_established E s \<Longrightarrow> dnsinfo_active (copy_sync_block E s) = dnsinfo_active s + 1"
  by (auto simp: handle_established_def copy_sync_block_def log_event_def Let_def
      split: option.splits if_splits)

lemma sync_block_client:
  "handle_established E s \<Longrightarrow> \<exists>c. dnsinfo_client (copy_sync_block E s) = Some c \<and> active c"
  by (auto simp: handle_established_def copy_sync_block_def log_event_def Let_def
      split: option.splits if_splits)

lemma sync_block_releases: "releases (trace (copy_sync_block E s)) = releases (trace s)"
  by (simp add: copy_sync_block_def log_event_def Let_def releases_append)

lemma sync_block_live:
  "live_allocations (trace (copy_sync_block E s)) = live_allocations (trace s)"
  by (simp add: copy_sync_block_def log_event_def Let_def live_allocations_append)

lemma after_request_fields:
  "dnsinfo_active (after_request E s) = dnsinfo_active (copy_sync_block E s)"
  "dnsinfo_client (after_request E s) = dnsinfo_client (copy_sync_block E s)"
  "releases (trace (after_request E s)) = releases (trace s)"
  "live_allocations (trace (after_request E s)) = live_allocations (trace s)"
  by (simp_all add: after_request_def log_event_def releases_append live_allocations_append
      sync_block_releases sync_block_live)

lemma copy_established:
  assumes "libSC_info_available E" and "handle_established E s"
  shows "dns_configuration_copy L E s =
     (case copy_reply_buf L E (reply_of E s) (after_request E s) of
        Crash \<Rightarrow> Crash
      | Overrun \<Rightarrow> Overrun
      | Returned (None, s3) \<Rightarrow> Returned (None, s3)
      | Returned (Some buf, s3) \<Rightarrow>
          (case dns_configuration_expand_config E buf of
             None \<Rightarrow> Returned (None, log_event Free s3)
           | Some config \<Rightarrow> Returned (Some config, s3)))"
proof -
  from sync_block_client [OF assms(2)] obtain c
    where "dnsinfo_client (copy_sync_block E s) = Some c" and "active c" by blast
  with assms(1) show ?thesis
    by (simp add: dns_configuration_copy_def after_request_def reply_of_def Let_def)
qed

lemma reply_buf_received:
  "copy_reply_buf L E (reply_of E s) t =
     (case received E s of
        None \<Rightarrow> Returned (None, t)
      | Some d \<Rightarrow> copy_reply_buf L E (Some [DNSINFO_CONFIGURATION \<mapsto> XPC_data d]) t)"
  by (simp add: received_def copy_reply_buf_def xpc_dictionary_get_data_def
      split: option.splits xpc_value.splits)

lemma reply_buf_state:
  assumes "copy_reply_buf L E r t = Returned (x, t')"
  shows "t' = t \<or> (\<exists>n. t' = log_event (Malloc n) t)"
  using assms unfolding copy_reply_buf_def Let_def
  by (auto split: option.splits if_splits)

lemma reply_buf_keeps:
  assumes "copy_reply_buf L E r t = Returned (x, t')"
  shows "dnsinfo_active t' = dnsinfo_active t" and "dnsinfo_client t' = dnsinfo_client t"
    and "releases (trace t') = releases (trace t)"
  using reply_buf_state [OF assms] by (auto simp: log_event_def releases_append)

lemma reply_buf_out_of_range:
  "\<not> (sizeof_dns_config_buf L \<le> length d \<and> length d \<le> DNS_CONFIG_BUF_MAX L) \<Longrightarrow>
   copy_reply_buf L E (Some [DNSINFO_CONFIGURATION \<mapsto> XPC_data d]) t = Returned (None, t)"
  by (auto simp: copy_reply_buf_def xpc_dictionary_get_data_def Let_def)

lemma reply_buf_mismatch:
  assumes "layout_ok L" and "sizeof_dns_config_buf L \<le> length d" and "length d \<le> DNS_CONFIG_BUF_MAX L"
    and "sizeof_dns_config_buf L + unat (n_attribute L d) \<noteq> length d"
  shows "copy_reply_buf L E (Some [DNSINFO_CONFIGURATION \<mapsto> XPC_data d]) t = Crash"
proof -
  have "sizeof_dns_config_buf L + unat (n_attribute L d) < 2 ^ 64"
    using assms(1-3) unat_u32_bound [of "n_attribute L d"] by (simp add: layout_ok_def)
  then have "size_t_add (sizeof_dns_config_buf L) (unat (n_attribute L d)) \<noteq> length d"
    using assms(4) by (simp add: size_t_add_exact)
  with assms(2,3) show ?thesis
    by (simp add: copy_reply_buf_def xpc_dictionary_get_data_def Let_def)
qed

lemma reply_buf_padding:
  assumes "layout_ok L" and "sizeof_dns_config_buf L \<le> length d" and "length d \<le> DNS_CONFIG_BUF_MAX L"
    and "DNS_CONFIG_BUF_MAX L < length d + unat (n_padding L d)"
  shows "copy_reply_buf L E (Some [DNSINFO_CONFIGURATION \<mapsto> XPC_data d]) t = Crash"
proof -
  have "\<not> unat (n_padding L d) \<le> size_t_sub (DNS_CONFIG_BUF_MAX L) (length d)"
    using assms(3,4) by (simp add: size_t_sub_exact)
  with assms(2,3) show ?thesis
    by (simp add: copy_reply_buf_def xpc_dictionary_get_data_def Let_def)
qed

lemma length_malloc: "length (malloc E n) = n"
  by (simp add: malloc_def)

lemma fill_copy:
  "bcopy d (malloc E (length d + n)) (length d) =
     Some (d @ drop (length d) (malloc E (length d + n)))"
  by (simp add: bcopy_def length_malloc)

lemma fill_zero:
  "bzero (d @ drop (length d) (malloc E (length d + n))) (length d) n = Some (d @ replicate n 0)"
  by (simp add: bzero_def length_malloc)

lemma reply_buf_valid:
  assumes "layout_ok L"
    and "sizeof_dns_config_buf L + unat (n_attribute L d) = length d"
    and "length d + unat (n_padding L d) \<le> DNS_CONFIG_BUF_MAX L"
  shows "copy_reply_buf L E (Some [DNSINFO_CONFIGURATION \<mapsto> XPC_data d]) t =
           Returned (Some (d @ replicate (unat (n_padding L d)) 0),
             log_event (Malloc (length d + unat (n_padding L d))) t)"
proof -
  have range: "sizeof_dns_config_buf L \<le> length d" "length d \<le> DNS_CONFIG_BUF_MAX L"
    using assms(2,3) by simp_all
  have big: "DNS_CONFIG_BUF_MAX L < 2 ^ 64"
    using assms(1) by (simp add: layout_ok_def)
  have a: "size_t_add (sizeof_dns_config_buf L) (unat (n_attribute L d)) = length d"
    using assms(2) range(2) big by (simp add: size_t_add_exact)
  have b: "unat (n_padding L d) \<le> size_t_sub (DNS_CONFIG_BUF_MAX L) (length d)"
    using assms(3) range(2) by (simp add: size_t_sub_exact)
  have c: "size_t_add (length d) (unat (n_padding L d)) = length d + unat (n_padding L d)"
    using assms(3) big by (simp add: size_t_add_exact)
  show ?thesis
    using range a b c assms(3)
    by (simp add: copy_reply_buf_def xpc_dictionary_get_data_def Let_def fill_copy fill_zero)
qed

subsection \<open>The sample inputs\<close>

lemma sample_layout_ok: "layout_ok sample_layout"
  by (simp add: layout_ok_def sample_layout_def)

lemma sample_established:
  "handle_established (sample_env (Some sample_client) d x) closed_state"
  by (simp add: handle_established_def sample_env_def closed_state_def sample_client_def)

lemma sample_available: "libSC_info_available (sample_env cl d x)"
  by (simp add: sample_env_def)

lemma sample_received: "received (sample_env cl d x) s = d"
  by (simp add: received_def reply_of_def sample_env_def xpc_dictionary_get_data_def
      split: option.splits)

lemma short_data_fields:
  "length short_data = 56" "n_attribute sample_layout short_data = 40"
  "n_padding sample_layout short_data = 0"
  by (simp_all add: short_data_def n_attribute_def n_padding_def ntohl_at_def sample_layout_def
      nth_append)

lemma sample_data_fields:
  "length sample_data = 56" "n_attribute sample_layout sample_data = 4"
  "n_padding sample_layout sample_data = 8"
  by (simp_all add: sample_data_def n_attribute_def n_padding_def ntohl_at_def sample_layout_def
      nth_append)


lemma sample_layout_fields:
  "sizeof_dns_config_buf sample_layout = 52" "DNS_CONFIG_BUF_MAX sample_layout = 1048576"
  by (simp_all add: sample_layout_def)

lemma tiny_data_length: "length tiny_data = 3"
  by (simp add: tiny_data_def)

subsection \<open>A reply that passes every size check\<close>

lemma copy_sizes_ok:
  assumes "layout_ok L" and "libSC_info_available E" and "handle_established E s"
    and "received E s = Some d"
    and "sizeof_dns_config_buf L + unat (n_attribute L d) = length d"
    and "length d + unat (n_padding L d) \<le> DNS_CONFIG_BUF_MAX L"
  shows "dns_configuration_copy L E s =
     (case dns_configuration_expand_config E (d @ replicate (unat (n_padding L d)) 0) of
        None \<Rightarrow>
          Returned (None, log_event Free
            (log_event (Malloc (length d + unat (n_padding L d))) (after_request E s)))
      | Some config \<Rightarrow>
          Returned (Some config,
            log_event (Malloc (length d + unat (n_padding L d))) (after_request E s)))"
  using assms
  by (simp add: copy_established reply_buf_received reply_buf_valid split: option.splits)

subsection \<open>Successful copies and releases\<close>










lemma sample_ranks: "rank en0 = 0" "rank en1 = 1"
  by (simp_all add: en0_def en1_def)

section \<open>Validation of the received buffer\<close>




text \<open>
  C2 (as amended).  The range check on the received byte count is a soft condition: a
  buffer that violates it is skipped and the call returns no configuration.  The checks
  made once the range check has passed are fatal: a mismatching attribute length or a
  padding that would take the buffer over the limit ends the process.
\<close>

theorem copy_check_severity:
  assumes "layout_ok L" and "libSC_info_available E" and "handle_established E s"
    and "received E s = Some d"
  shows "(\<not> (sizeof_dns_config_buf L \<le> length d \<and> length d \<le> DNS_CONFIG_BUF_MAX L) \<longrightarrow>
            dns_configuration_copy L E s = Returned (None, after_request E s)) \<and>
         (sizeof_dns_config_buf L \<le> length d \<and> length d \<le> DNS_CONFIG_BUF_MAX L \<and>
          (sizeof_dns_config_buf L + unat (n_attribute L d) \<noteq> length d \<or>
           DNS_CONFIG_BUF_MAX L < length d + unat (n_padding L d)) \<longrightarrow>
            dns_configuration_copy L E s = Crash)"
proof (intro conjI impI)
  assume "\<not> (sizeof_dns_config_buf L \<le> length d \<and> length d \<le> DNS_CONFIG_BUF_MAX L)"
  then show "dns_configuration_copy L E s = Returned (None, after_request E s)"
    using assms by (simp add: copy_established reply_buf_received reply_buf_out_of_range)
next
  assume a: "sizeof_dns_config_buf L \<le> length d \<and> length d \<le> DNS_CONFIG_BUF_MAX L \<and>
          (sizeof_dns_config_buf L + unat (n_attribute L d) \<noteq> length d \<or>
           DNS_CONFIG_BUF_MAX L < length d + unat (n_padding L d))"
  then have "copy_reply_buf L E (Some [DNSINFO_CONFIGURATION \<mapsto> XPC_data d])
      (after_request E s) = Crash"
    using assms(1) reply_buf_mismatch [of L d E] reply_buf_padding [of L d E] by blast
  then show "dns_configuration_copy L E s = Crash"
    using assms by (simp add: copy_established reply_buf_received)
qed

text \<open>
  The amended C2 at a three-byte reply (skipped) and at a reply with a mismatching
  attribute length (fatal).
\<close>

theorem copy_check_severity_witness:
  "layout_ok sample_layout \<and>
   libSC_info_available (sample_env (Some sample_client) (Some tiny_data) True) \<and>
   handle_established (sample_env (Some sample_client) (Some tiny_data) True) closed_state \<and>
   received (sample_env (Some sample_client) (Some tiny_data) True) closed_state = Some tiny_data \<and>
   \<not> (sizeof_dns_config_buf sample_layout \<le> length tiny_data \<and>
      length tiny_data \<le> DNS_CONFIG_BUF_MAX sample_layout) \<and>
   dns_configuration_copy sample_layout (sample_env (Some sample_client) (Some tiny_data) True)
     closed_state =
   Returned (None, after_request (sample_env (Some sample_client) (Some tiny_data) True) closed_state) \<and>
   received (sample_env (Some sample_client) (Some short_data) False) closed_state = Some short_data \<and>
   sizeof_dns_config_buf sample_layout \<le> length short_data \<and>
   length short_data \<le> DNS_CONFIG_BUF_MAX sample_layout \<and>
   sizeof_dns_config_buf sample_layout + unat (n_attribute sample_layout short_data) \<noteq> length short_data \<and>
   dns_configuration_copy sample_layout (sample_env (Some sample_client) (Some short_data) False)
     closed_state = Crash"
  using copy_check_severity [of sample_layout
      "sample_env (Some sample_client) (Some tiny_data) True" closed_state tiny_data]
    copy_check_severity [of sample_layout
      "sample_env (Some sample_client) (Some short_data) False" closed_state short_data]
  by (simp add: sample_layout_ok sample_established sample_available sample_received
      short_data_fields tiny_data_length sample_layout_fields)

text \<open>
  C2 as stated fails at the first check: a three-byte reply violates the range check and
  the process does not end.
\<close>

theorem copy_short_buffer_returns:
  "\<not> (sizeof_dns_config_buf sample_layout \<le> length tiny_data \<and>
      length tiny_data \<le> DNS_CONFIG_BUF_MAX sample_layout) \<and>
   dns_configuration_copy sample_layout (sample_env (Some sample_client) (Some tiny_data) True)
     closed_state \<noteq> Crash \<and>
   dns_configuration_copy sample_layout (sample_env (Some sample_client) (Some tiny_data) True)
     closed_state =
   Returned (None, after_request (sample_env (Some sample_client) (Some tiny_data) True) closed_state)"
  by (simp add: copy_established sample_established sample_available reply_buf_received
      sample_received reply_buf_out_of_range tiny_data_length sample_layout_fields)

text \<open>
  C3.  When the declared lengths satisfy the three size invariants (header plus attribute
  length is the received length; the padding is at most the limit minus the received
  length; received length plus padding is at most the limit), no assertion fails and no
  write leaves the block; the block is allocated with exactly the received length plus
  the padding, and the buffer handed to the expansion has that length, starts with the
  received bytes unchanged and ends with the padding filled with zeros, whatever the
  fresh block held.
\<close>

theorem copy_valid_buffer:
  assumes "layout_ok L" and "libSC_info_available E" and "handle_established E s"
    and "received E s = Some d"
    and "sizeof_dns_config_buf L + unat (n_attribute L d) = length d"
    and "int (unat (n_padding L d)) \<le> int (DNS_CONFIG_BUF_MAX L) - int (length d)"
    and "length d + unat (n_padding L d) \<le> DNS_CONFIG_BUF_MAX L"
  shows "\<exists>buf. copy_reply_buf L E (reply_of E s) (after_request E s) =
             Returned (Some buf,
               log_event (Malloc (length d + unat (n_padding L d))) (after_request E s)) \<and>
           length buf = length d + unat (n_padding L d) \<and>
           take (length d) buf = d \<and>
           drop (length d) buf = replicate (unat (n_padding L d)) 0 \<and>
           dns_configuration_copy L E s \<noteq> Crash \<and>
           dns_configuration_copy L E s \<noteq> Overrun \<and>
           (\<exists>s'. dns_configuration_copy L E s =
                    Returned (dns_configuration_expand_config E buf, s'))"
proof -
  let ?buf = "d @ replicate (unat (n_padding L d)) 0"
  have "copy_reply_buf L E (reply_of E s) (after_request E s) =
      Returned (Some ?buf, log_event (Malloc (length d + unat (n_padding L d))) (after_request E s))"
    using assms by (simp add: reply_buf_received reply_buf_valid)
  moreover have r: "\<exists>s'. dns_configuration_copy L E s =
      Returned (dns_configuration_expand_config E ?buf, s')"
    using copy_sizes_ok [OF assms(1-5) assms(7)] by (simp split: option.splits)
  moreover from r have "dns_configuration_copy L E s \<noteq> Crash"
    and "dns_configuration_copy L E s \<noteq> Overrun" by auto
  ultimately show ?thesis by simp
qed

text \<open>
  C3 at the sample buffer: 56 received bytes, 8 bytes of padding, a 64-byte block whose
  fresh contents (the byte 170 throughout) are all overwritten.
\<close>

theorem copy_valid_buffer_witness:
  "layout_ok sample_layout \<and>
   libSC_info_available (sample_env (Some sample_client) (Some sample_data) True) \<and>
   handle_established (sample_env (Some sample_client) (Some sample_data) True) closed_state \<and>
   received (sample_env (Some sample_client) (Some sample_data) True) closed_state = Some sample_data \<and>
   sizeof_dns_config_buf sample_layout + unat (n_attribute sample_layout sample_data) =
     length sample_data \<and>
   int (unat (n_padding sample_layout sample_data)) \<le>
     int (DNS_CONFIG_BUF_MAX sample_layout) - int (length sample_data) \<and>
   length sample_data + unat (n_padding sample_layout sample_data) \<le>
     DNS_CONFIG_BUF_MAX sample_layout \<and>
   (\<exists>buf. copy_reply_buf sample_layout (sample_env (Some sample_client) (Some sample_data) True)
            (reply_of (sample_env (Some sample_client) (Some sample_data) True) closed_state)
            (after_request (sample_env (Some sample_client) (Some sample_data) True) closed_state) =
          Returned (Some buf, log_event (Malloc 64)
            (after_request (sample_env (Some sample_client) (Some sample_data) True) closed_state)) \<and>
          length buf = 64 \<and> take 56 buf = sample_data \<and> drop 56 buf = replicate 8 0)"
  using copy_valid_buffer [of sample_layout
      "sample_env (Some sample_client) (Some sample_data) True" closed_state sample_data]
  by (auto simp add: sample_layout_ok sample_established sample_available sample_received
      sample_data_fields sample_layout_fields)

text \<open>
  C8.  When the reply passes every size check and the expansion of the buffer fails,
  \<^verbatim>\<open>dns_configuration_copy\<close> returns no configuration instead of ending the
  process, and the buffer it allocated is freed: the call adds one \<^verbatim>\<open>malloc\<close> and
  one \<^verbatim>\<open>free\<close> to the trace, so the number of live buffers is what it was.
\<close>

theorem copy_expansion_failure_is_soft:
  assumes "layout_ok L" and "libSC_info_available E" and "handle_established E s"
    and "received E s = Some d"
    and "sizeof_dns_config_buf L + unat (n_attribute L d) = length d"
    and "length d + unat (n_padding L d) \<le> DNS_CONFIG_BUF_MAX L"
    and "dns_configuration_expand_config E (d @ replicate (unat (n_padding L d)) 0) = None"
  shows "\<exists>s'. dns_configuration_copy L E s = Returned (None, s') \<and>
           trace s' = trace (after_request E s) @
             [Malloc (length d + unat (n_padding L d)), Free] \<and>
           live_allocations (trace s') = live_allocations (trace s)"
  using copy_sizes_ok [OF assms(1-6)] assms(7)
  by (simp add: log_event_def live_allocations_append after_request_fields)

text \<open>C8 at the sample buffer with an expansion that fails.\<close>

theorem copy_expansion_failure_is_soft_witness:
  "layout_ok sample_layout \<and>
   libSC_info_available (sample_env (Some sample_client) (Some sample_data) False) \<and>
   handle_established (sample_env (Some sample_client) (Some sample_data) False) closed_state \<and>
   received (sample_env (Some sample_client) (Some sample_data) False) closed_state = Some sample_data \<and>
   sizeof_dns_config_buf sample_layout + unat (n_attribute sample_layout sample_data) =
     length sample_data \<and>
   length sample_data + unat (n_padding sample_layout sample_data) \<le>
     DNS_CONFIG_BUF_MAX sample_layout \<and>
   dns_configuration_expand_config (sample_env (Some sample_client) (Some sample_data) False)
     (sample_data @ replicate (unat (n_padding sample_layout sample_data)) 0) = None \<and>
   (\<exists>s'. dns_configuration_copy sample_layout
            (sample_env (Some sample_client) (Some sample_data) False) closed_state =
          Returned (None, s') \<and>
          live_allocations (trace s') = live_allocations (trace closed_state))"
proof -
  have e: "dns_configuration_expand_config (sample_env (Some sample_client) (Some sample_data) False)
     (sample_data @ replicate (unat (n_padding sample_layout sample_data)) 0) = None"
    by (simp add: sample_env_def)
  show ?thesis
    using e copy_expansion_failure_is_soft [of sample_layout
      "sample_env (Some sample_client) (Some sample_data) False" closed_state sample_data]
    by (auto simp add: sample_layout_ok sample_established sample_available sample_received
      sample_data_fields sample_layout_fields)
qed

section \<open>The life of the connection\<close>

text \<open>
  C7.  When \<^verbatim>\<open>libSC_info_available\<close> says no (between fork and exec), the call returns
  no configuration at once and the state is untouched: no client is created, no message
  is sent, the count of opens is not changed.
\<close>

theorem copy_unavailable:
  "\<not> libSC_info_available E \<Longrightarrow> dns_configuration_copy L E s = Returned (None, s)"
  by (simp add: dns_configuration_copy_def)

text \<open>C7 on a closed connection.\<close>

theorem copy_unavailable_witness:
  "\<not> libSC_info_available forked_env \<and>
   dns_configuration_copy sample_layout forked_env closed_state = Returned (None, closed_state)"
  using copy_unavailable [of forked_env sample_layout closed_state]
  by (simp add: forked_env_def sample_env_def)

text \<open>
  C6 (as amended).  A call that neither finds nor opens an active client returns no
  configuration, in the state the queue block left.  When the failure is that the
  creation of the client returned no client, the queue block itself takes back the
  increment it made: after the block the count of opens is what it was before the call
  and no client exists.
\<close>

theorem copy_setup_failure:
  assumes "libSC_info_available E" and "\<not> handle_established E s"
  shows "dns_configuration_copy L E s = Returned (None, copy_sync_block E s) \<and>
         ((dnsinfo_active s = 0 \<or> dnsinfo_client s = None) \<and>
          libSC_info_client_create E = None \<longrightarrow>
            dnsinfo_active (copy_sync_block E s) = dnsinfo_active s \<and>
            dnsinfo_client (copy_sync_block E s) = None)"
proof (intro conjI impI)
  have "case dnsinfo_client (copy_sync_block E s) of None \<Rightarrow> True | Some c \<Rightarrow> \<not> active c"
    using assms(2)
    by (auto simp: handle_established_def copy_sync_block_def log_event_def Let_def
        split: option.splits if_splits)
  with assms(1) show "dns_configuration_copy L E s = Returned (None, copy_sync_block E s)"
    by (simp add: dns_configuration_copy_def Let_def split: option.splits)
next
  assume a: "(dnsinfo_active s = 0 \<or> dnsinfo_client s = None) \<and>
      libSC_info_client_create E = None"
  then show "dnsinfo_active (copy_sync_block E s) = dnsinfo_active s"
    by (auto simp: copy_sync_block_def log_event_def Let_def)
  from a show "dnsinfo_client (copy_sync_block E s) = None"
    by (auto simp: copy_sync_block_def log_event_def Let_def)
qed

text \<open>The amended C6 on a closed connection whose client cannot be created.\<close>

theorem copy_setup_failure_witness:
  "libSC_info_available (sample_env None (Some sample_data) True) \<and>
   \<not> handle_established (sample_env None (Some sample_data) True) closed_state \<and>
   (dnsinfo_active closed_state = 0 \<or> dnsinfo_client closed_state = None) \<and>
   libSC_info_client_create (sample_env None (Some sample_data) True) = None \<and>
   dnsinfo_active (copy_sync_block (sample_env None (Some sample_data) True) closed_state) = 0 \<and>
   dnsinfo_client (copy_sync_block (sample_env None (Some sample_data) True) closed_state) = None \<and>
   dns_configuration_copy sample_layout (sample_env None (Some sample_data) True) closed_state =
     Returned (None, copy_sync_block (sample_env None (Some sample_data) True) closed_state)"
  using copy_setup_failure [of "sample_env None (Some sample_data) True" closed_state
      sample_layout]
  by (simp add: sample_env_def closed_state_def handle_established_def)

text \<open>
  C6 as stated fails when the connection does not come up although a client exists.
  On a closed connection whose new client is not active, and on an open one whose
  client has stopped being active, the call returns no configuration and the count of
  opens is one above its value before the call.
\<close>

theorem copy_inactive_client_keeps_count:
  "\<not> handle_established (sample_env (Some inactive_client) (Some sample_data) True) closed_state \<and>
   dns_configuration_copy sample_layout
     (sample_env (Some inactive_client) (Some sample_data) True) closed_state =
   Returned (None,
     copy_sync_block (sample_env (Some inactive_client) (Some sample_data) True) closed_state) \<and>
   dnsinfo_active closed_state = 0 \<and>
   dnsinfo_active
     (copy_sync_block (sample_env (Some inactive_client) (Some sample_data) True) closed_state) = 1 \<and>
   \<not> handle_established (sample_env None (Some sample_data) True) stale_state \<and>
   dns_configuration_copy sample_layout (sample_env None (Some sample_data) True) stale_state =
   Returned (None, copy_sync_block (sample_env None (Some sample_data) True) stale_state) \<and>
   dnsinfo_active stale_state = 1 \<and>
   dnsinfo_active (copy_sync_block (sample_env None (Some sample_data) True) stale_state) = 2"
  by (simp add: dns_configuration_copy_def copy_sync_block_def handle_established_def
      sample_env_def closed_state_def stale_state_def inactive_client_def log_event_def Let_def)



text \<open>
  C10.  A call that finds or opens an active client and then returns no configuration
  (the reply is missing or carries no data, the byte count is out of range, or the
  expansion fails) leaves the count of opens one above its value before the call: the
  increment of the queue block is not taken back on these paths.
\<close>

theorem copy_failure_keeps_count:
  assumes "libSC_info_available E" and "handle_established E s"
    and "received E s = None \<or>
         (\<exists>d. received E s = Some d \<and>
            \<not> (sizeof_dns_config_buf L \<le> length d \<and> length d \<le> DNS_CONFIG_BUF_MAX L)) \<or>
         (\<exists>buf s2. copy_reply_buf L E (reply_of E s) (after_request E s) =
              Returned (Some buf, s2) \<and>
            dns_configuration_expand_config E buf = None)"
  shows "\<exists>s'. dns_configuration_copy L E s = Returned (None, s') \<and>
           dnsinfo_active s' = dnsinfo_active s + 1 \<and> dnsinfo_client s' \<noteq> None"
proof -
  from sync_block_client [OF assms(2)]
  have cl: "dnsinfo_client (copy_sync_block E s) \<noteq> None" by auto
  note n = sync_block_count [OF assms(2)]
  from assms(3) consider
    (empty) "received E s = None"
    | (range) d where "received E s = Some d"
        "\<not> (sizeof_dns_config_buf L \<le> length d \<and> length d \<le> DNS_CONFIG_BUF_MAX L)"
    | (expand) buf s2 where
        "copy_reply_buf L E (reply_of E s) (after_request E s) = Returned (Some buf, s2)"
        "dns_configuration_expand_config E buf = None"
    by (elim disjE exE conjE) blast+
  then show ?thesis
  proof cases
    case empty
    then have "dns_configuration_copy L E s = Returned (None, after_request E s)"
      using assms(1,2) by (simp add: copy_established reply_buf_received)
    with cl n show ?thesis by (simp add: after_request_fields)
  next
    case range
    then have "dns_configuration_copy L E s = Returned (None, after_request E s)"
      using assms(1,2) by (simp add: copy_established reply_buf_received reply_buf_out_of_range)
    with cl n show ?thesis by (simp add: after_request_fields)
  next
    case expand
    then have "dns_configuration_copy L E s = Returned (None, log_event Free s2)"
      using assms(1,2) by (simp add: copy_established)
    with cl n reply_buf_keeps [OF expand(1)] show ?thesis
      by (simp add: after_request_fields log_event_def)
  qed
qed

text \<open>C10 at an empty reply, a three-byte reply and a failing expansion.\<close>

theorem copy_failure_keeps_count_witness:
  "libSC_info_available (sample_env (Some sample_client) None True) \<and>
   handle_established (sample_env (Some sample_client) None True) closed_state \<and>
   received (sample_env (Some sample_client) None True) closed_state = None \<and>
   (\<exists>s'. dns_configuration_copy sample_layout (sample_env (Some sample_client) None True)
            closed_state = Returned (None, s') \<and> dnsinfo_active s' = 1) \<and>
   received (sample_env (Some sample_client) (Some tiny_data) True) closed_state = Some tiny_data \<and>
   \<not> (sizeof_dns_config_buf sample_layout \<le> length tiny_data \<and>
      length tiny_data \<le> DNS_CONFIG_BUF_MAX sample_layout) \<and>
   (\<exists>s'. dns_configuration_copy sample_layout (sample_env (Some sample_client) (Some tiny_data) True)
            closed_state = Returned (None, s') \<and> dnsinfo_active s' = 1) \<and>
   copy_reply_buf sample_layout (sample_env (Some sample_client) (Some sample_data) False)
     (reply_of (sample_env (Some sample_client) (Some sample_data) False) closed_state)
     (after_request (sample_env (Some sample_client) (Some sample_data) False) closed_state) =
     Returned (Some (sample_data @ replicate 8 0), log_event (Malloc 64)
       (after_request (sample_env (Some sample_client) (Some sample_data) False) closed_state)) \<and>
   dns_configuration_expand_config (sample_env (Some sample_client) (Some sample_data) False)
     (sample_data @ replicate 8 0) = None \<and>
   (\<exists>s'. dns_configuration_copy sample_layout (sample_env (Some sample_client) (Some sample_data) False)
            closed_state = Returned (None, s') \<and> dnsinfo_active s' = 1)"
proof -
  have z: "dnsinfo_active closed_state = 0"
    by (simp add: closed_state_def)
  have a: "received (sample_env (Some sample_client) None True) closed_state = None"
    by (simp add: sample_received)
  have b: "received (sample_env (Some sample_client) (Some tiny_data) True) closed_state = Some tiny_data"
    "\<not> (sizeof_dns_config_buf sample_layout \<le> length tiny_data \<and>
      length tiny_data \<le> DNS_CONFIG_BUF_MAX sample_layout)"
    by (simp_all add: sample_received tiny_data_length sample_layout_fields)
  have c: "copy_reply_buf sample_layout (sample_env (Some sample_client) (Some sample_data) False)
     (reply_of (sample_env (Some sample_client) (Some sample_data) False) closed_state)
     (after_request (sample_env (Some sample_client) (Some sample_data) False) closed_state) =
     Returned (Some (sample_data @ replicate 8 0), log_event (Malloc 64)
       (after_request (sample_env (Some sample_client) (Some sample_data) False) closed_state))"
    "dns_configuration_expand_config (sample_env (Some sample_client) (Some sample_data) False)
     (sample_data @ replicate 8 0) = None"
    by (simp_all add: reply_buf_received sample_received reply_buf_valid sample_layout_ok
        sample_data_fields sample_layout_fields, simp add: sample_env_def)
  have "\<exists>s'. dns_configuration_copy sample_layout (sample_env (Some sample_client) None True)
            closed_state = Returned (None, s') \<and> dnsinfo_active s' = 1"
    using copy_failure_keeps_count [of "sample_env (Some sample_client) None True" closed_state
        sample_layout] a z
    by (auto simp add: sample_available sample_established)
  moreover have "\<exists>s'. dns_configuration_copy sample_layout
      (sample_env (Some sample_client) (Some tiny_data) True) closed_state = Returned (None, s') \<and>
      dnsinfo_active s' = 1"
    using copy_failure_keeps_count [of "sample_env (Some sample_client) (Some tiny_data) True"
        closed_state sample_layout] b z
    by (auto simp add: sample_available sample_established)
  moreover have "\<exists>s'. dns_configuration_copy sample_layout
      (sample_env (Some sample_client) (Some sample_data) False) closed_state = Returned (None, s') \<and>
      dnsinfo_active s' = 1"
    using copy_failure_keeps_count [of "sample_env (Some sample_client) (Some sample_data) False"
        closed_state sample_layout] c z
    by (auto simp add: sample_available sample_established)
  ultimately show ?thesis
    using a b c by (simp add: sample_available sample_established)
qed

section \<open>Acknowledgement\<close>

text \<open>
  C5.  For a configuration and an active client, \<^verbatim>\<open>_dns_configuration_ack\<close> raises the
  count of opens by one and sends, with \<^verbatim>\<open>xpc_connection_send_message\<close> (no reply is
  awaited), a message whose request is the acknowledgement and whose generation is the
  one of the configuration.  The increment has no matching decrement: once the
  configuration has been freed the count is back at its value before the
  acknowledgement, so a connection that was open then stays open.
\<close>

theorem ack_pins_connection_and_sends:
  assumes "dnsinfo_client s = Some cl" and "active cl"
  shows "dnsinfo_active (dns_configuration_ack (Some c) bundle_id s) = dnsinfo_active s + 1 \<and>
         dnsinfo_client (dns_configuration_ack (Some c) bundle_id s) = Some cl \<and>
         trace (dns_configuration_ack (Some c) bundle_id s) =
           trace s @ [Connection_send_message (connection cl) (ack_reqdict c)] \<and>
         ack_reqdict c DNSINFO_REQUEST = Some (XPC_int64 DNSINFO_REQUEST_ACKNOWLEDGE) \<and>
         ack_reqdict c DNSINFO_GENERATION = Some (XPC_uint64 (generation c)) \<and>
         (1 \<le> dnsinfo_active s \<longrightarrow>
            dnsinfo_client (dns_configuration_free (Some c) (dns_configuration_ack (Some c) bundle_id s))
              = Some cl \<and>
            releases (trace (dns_configuration_free (Some c)
              (dns_configuration_ack (Some c) bundle_id s))) = releases (trace s))"
  using assms
  by (simp add: dns_configuration_ack_def dns_configuration_free_def log_event_def
      ack_reqdict_def Let_def releases_append)

text \<open>C5 on an open connection with one configuration outstanding.\<close>

theorem ack_pins_connection_and_sends_witness:
  "dnsinfo_client open_state = Some sample_client \<and> active sample_client \<and>
   1 \<le> dnsinfo_active open_state \<and>
   dnsinfo_active (dns_configuration_ack (Some (sample_config sample_data)) ''b'' open_state) = 2 \<and>
   trace (dns_configuration_ack (Some (sample_config sample_data)) ''b'' open_state) =
     [Client_create,
      Connection_send_message 1
        [DNSINFO_REQUEST \<mapsto> XPC_int64 DNSINFO_REQUEST_ACKNOWLEDGE,
         DNSINFO_GENERATION \<mapsto> XPC_uint64 7]] \<and>
   dnsinfo_client (dns_configuration_free (Some (sample_config sample_data))
     (dns_configuration_ack (Some (sample_config sample_data)) ''b'' open_state)) =
     Some sample_client"
  using ack_pins_connection_and_sends [of open_state sample_client "sample_config sample_data" "''b''"]
  by (simp add: open_state_def sample_client_def sample_config_def ack_reqdict_def)

section \<open>The order of interface states\<close>

text \<open>
  C9.  Comparing an interface state with itself gives EQUAL; when the first of two
  states comes first, comparing them the other way round says that the second comes
  first; and the result depends on the stored ranks alone, so records with the same
  ranks compare the same whatever else they hold.
\<close>

theorem compare_rank_reflexive_antisymmetric:
  "nwi_ifstate_compare_rank a a = EQUAL \<and>
   (nwi_ifstate_compare_rank a b = A_FIRST \<longrightarrow> nwi_ifstate_compare_rank b a = B_FIRST) \<and>
   (rank a = rank a' \<and> rank b = rank b' \<longrightarrow>
      nwi_ifstate_compare_rank a b = nwi_ifstate_compare_rank a' b')"
proof (intro conjI impI)
  show "nwi_ifstate_compare_rank a a = EQUAL"
    by (simp add: nwi_ifstate_compare_rank_def)
next
  assume "nwi_ifstate_compare_rank a b = A_FIRST"
  then have "rank a < rank b"
    by (simp add: nwi_ifstate_compare_rank_def EQUAL_def A_FIRST_def B_FIRST_def
        split: if_splits)
  then show "nwi_ifstate_compare_rank b a = B_FIRST"
    by (simp add: nwi_ifstate_compare_rank_def)
next
  assume "rank a = rank a' \<and> rank b = rank b'"
  then show "nwi_ifstate_compare_rank a b = nwi_ifstate_compare_rank a' b'"
    by (simp add: nwi_ifstate_compare_rank_def)
qed

text \<open>C9 at two interfaces of ranks 0 and 1.\<close>

theorem compare_rank_reflexive_antisymmetric_witness:
  "nwi_ifstate_compare_rank en0 en0 = EQUAL \<and>
   nwi_ifstate_compare_rank en0 en1 = A_FIRST \<and>
   nwi_ifstate_compare_rank en1 en0 = B_FIRST \<and>
   rank en0 = rank (en0\<lparr>ifname := ''lo0''\<rparr>) \<and> rank en1 = rank en1 \<and>
   nwi_ifstate_compare_rank en0 en1 = nwi_ifstate_compare_rank (en0\<lparr>ifname := ''lo0''\<rparr>) en1"
proof -
  have f: "nwi_ifstate_compare_rank en0 en1 = A_FIRST"
    by (simp add: nwi_ifstate_compare_rank_def sample_ranks)
  have r: "rank en0 = rank (en0\<lparr>ifname := ''lo0''\<rparr>) \<and> rank en1 = rank en1"
    by simp
  from compare_rank_reflexive_antisymmetric [of en0 en1 "en0\<lparr>ifname := ''lo0''\<rparr>" en1]
  have "nwi_ifstate_compare_rank en0 en0 = EQUAL"
    and "nwi_ifstate_compare_rank en0 en1 = A_FIRST \<longrightarrow> nwi_ifstate_compare_rank en1 en0 = B_FIRST"
    and "rank en0 = rank (en0\<lparr>ifname := ''lo0''\<rparr>) \<and> rank en1 = rank en1 \<longrightarrow>
      nwi_ifstate_compare_rank en0 en1 = nwi_ifstate_compare_rank (en0\<lparr>ifname := ''lo0''\<rparr>) en1"
    by blast+
  with f r show ?thesis by blast
qed

end
